theory Spec2Isabelle
  imports Main "HOL-Library.Stream"
begin

section \<open>Acey Ducey: the data model\<close>

text \<open>
  The header declares
  \<^verbatim>\<open>enum class State { Initialising, Playing, BetNothing, GameOver };\<close>
  and the table of ranks
  \<^verbatim>\<open>static constexpr std::array<std::string_view, 13> CARDS{"2", ..., "A"};\<close>
\<close>

datatype State = Initialising | Playing | BetNothing | GameOver

definition CARDS :: "string list" where
  "CARDS = ''2'' # ''3'' # ''4'' # ''5'' # ''6'' # ''7'' # ''8'' # ''9'' # ''10'' #
           ''J'' # ''Q'' # ''K'' # ''A'' # []"

text \<open>
  The member \<open>deck\<close> is filled from \<open>CARDS\<close> by the constructor and no member
  function ever writes to it, so it is a constant of the model.
\<close>

definition deck :: "string list" where
  "deck = CARDS"

text \<open>
  What can stop a round other than a normal return: \<open>std::stoi\<close> throws
  \<open>std::out_of_range\<close> (nothing catches it), and arithmetic on \<open>int\<close> that leaves
  the range of the type has no defined result. An \<open>int\<close> has 32 bits here, as it has
  for the compiler that the build file names.
\<close>

datatype error = OutOfRange | SignedOverflow

definition INT_MAX :: int where
  "INT_MAX = 2147483647"

definition INT_MIN :: int where
  "INT_MIN = - 2147483648"

text \<open>
  The object: the two data members that change, the random engine, and the three
  streams the member functions touch. \<open>rng\<close> is the sequence of values the engine
  will hand to the distribution, \<open>cin\<close> the lines still unread on standard input,
  \<open>cout\<close> and \<open>cerr\<close> the texts written so far, oldest first, one entry for a call
  of \<open>std::print\<close> or \<open>std::println\<close>.
\<close>

record AceyDucey =
  balance :: int
  state :: State
  rng :: "nat stream"
  cin :: "string list"
  cout :: "string list"
  cerr :: "string list"

definition AceyDucey_new :: "nat stream \<Rightarrow> string list \<Rightarrow> AceyDucey" where
  "AceyDucey_new seed input =
     \<lparr>balance = 100, state = Initialising, rng = seed, cin = input, cout = [], cerr = []\<rparr>"

section \<open>Comparing ranks\<close>

text \<open>
  \<open>std::ranges::find\<close> followed by \<open>std::distance\<close> from \<open>begin()\<close>: the position
  of the first equal element, or the length of the range when there is none.
\<close>

fun ranges_find :: "'a list \<Rightarrow> 'a \<Rightarrow> nat" where
  "ranges_find [] v = 0"
| "ranges_find (x # xs) v = (if x = v then 0 else Suc (ranges_find xs v))"

definition index_of :: "string \<Rightarrow> int" where
  "index_of v = int (ranges_find CARDS v)"

definition is_between :: "string \<Rightarrow> string \<Rightarrow> string \<Rightarrow> bool" where
  "is_between a b test =
     (let idx_a = index_of a;
          idx_b = index_of b;
          idx_test = index_of test;
          (idx_a, idx_b) = (if idx_a > idx_b then (idx_b, idx_a) else (idx_a, idx_b))
      in idx_test > idx_a \<and> idx_test < idx_b)"

section \<open>Characters, formatting and the console\<close>

text \<open>
  \<open>std::isspace\<close>, \<open>isdigit\<close> and \<open>std::toupper\<close> of the header \<open>cctype\<close> in the
  default "C" locale, on a character read as \<open>unsigned char\<close>.
\<close>

definition isspace :: "char \<Rightarrow> bool" where
  "isspace ch = (let n = (of_char ch :: nat) in n = 32 \<or> (9 \<le> n \<and> n \<le> 13))"

definition isdigit :: "char \<Rightarrow> bool" where
  "isdigit ch = (let n = (of_char ch :: nat) in 48 \<le> n \<and> n \<le> 57)"

definition toupper :: "char \<Rightarrow> char" where
  "toupper c = (let n = (of_char c :: nat)
                in if 97 \<le> n \<and> n \<le> 122 then char_of (n - 32) else c)"

text \<open>
  The replacement field \<open>{}\<close> of \<open>std::format\<close> for an \<open>int\<close>: decimal, with a
  minus sign when negative.
\<close>

fun show_nat :: "nat \<Rightarrow> string" where
  "show_nat n = (if n < 10 then [char_of (48 + n)]
                 else show_nat (n div 10) @ [char_of (48 + n mod 10)])"

declare show_nat.simps [simp del]

definition show_int :: "int \<Rightarrow> string" where
  "show_int i = (if i < 0 then CHR ''-'' # show_nat (nat (- i)) else show_nat (nat i))"

text \<open>
  The replacement field \<open>{:^66}\<close>: centred in a width of at least 66, the smaller half of
  the padding in front.
\<close>

definition centre :: "nat \<Rightarrow> string \<Rightarrow> string" where
  "centre w s = (let pad = w - length s
                 in replicate (pad div 2) CHR '' '' @ s @ replicate (pad - pad div 2) CHR '' '')"

definition print :: "string \<Rightarrow> AceyDucey \<Rightarrow> AceyDucey" where
  "print s g = g\<lparr>cout := cout g @ [s]\<rparr>"

definition println :: "string \<Rightarrow> AceyDucey \<Rightarrow> AceyDucey" where
  "println s g = g\<lparr>cout := cout g @ [s @ ''\<newline>'']\<rparr>"

text \<open>
  \<open>std::getline\<close> on \<open>std::cin\<close> into a fresh string: the next line, or the empty
  string once the input has ended.
\<close>

definition getline :: "AceyDucey \<Rightarrow> string \<times> AceyDucey" where
  "getline g = (case cin g of [] \<Rightarrow> ([], g) | l # ls \<Rightarrow> (l, g\<lparr>cin := ls\<rparr>))"

section \<open>The member functions\<close>

definition print_intro :: "AceyDucey \<Rightarrow> AceyDucey" where
  "print_intro g =
     println (centre 66 ''CREATIVE COMPUTING  MORRISTOWN, NEW JERSEY'')
       (println (centre 66 ''ACEY DUCEY CARD GAME'') g)"

definition print_instructions :: "AceyDucey \<Rightarrow> AceyDucey" where
  "print_instructions g =
     (let g = println [] g;
          g = println ''ACEY-DUCEY IS PLAYED IN THE FOLLOWING MANNER'' g;
          g = println ''THE DEALER (COMPUTER) DEALS TWO CARDS FACE UP'' g;
          g = println ''YOU HAVE AN OPTION TO BET OR NOT BET DEPENDING'' g;
          g = println ''ON WHETHER OR NOT YOU FEEL THE CARD WILL HAVE'' g
      in println ''A VALUE BETWEEN THE FIRST TWO.'' g)"

text \<open>
  \<open>deal_card\<close>: the distribution turns the engine's next value into an index from 0 to
  \<open>deck.size() - 1\<close>.
\<close>

definition deal_card :: "AceyDucey \<Rightarrow> string \<times> AceyDucey" where
  "deal_card g = (deck ! (shd (rng g) mod length deck), g\<lparr>rng := stl (rng g)\<rparr>)"

text \<open>The lambda \<open>index_of\<close> inside \<open>print_cards\<close>, which answers -1 for a missing label.\<close>

definition print_cards_index_of :: "string \<Rightarrow> int" where
  "print_cards_index_of v =
     (let it = ranges_find CARDS v in if it \<noteq> length CARDS then int it else - 1)"

definition print_cards :: "string \<Rightarrow> string \<Rightarrow> AceyDucey \<Rightarrow> AceyDucey" where
  "print_cards a b g =
     (let idx_a = print_cards_index_of a;
          idx_b = print_cards_index_of b
      in if idx_a = - 1 \<or> idx_b = - 1
         then g\<lparr>cerr := cerr g @ [''Error: Invalid card rank(s).'' @ ''\<newline>'']\<rparr>
         else (let (a, b) = (if idx_a > idx_b then (b, a) else (a, b))
               in println (a @ '' '' @ b) g))"

definition trim :: "string \<Rightarrow> string" where
  "trim line = rev (dropWhile isspace (rev (dropWhile isspace line)))"

definition get_input_line :: "AceyDucey \<Rightarrow> string \<times> AceyDucey" where
  "get_input_line g = (let (line, g) = getline g in (map toupper (trim line), g))"

text \<open>
  \<open>std::stoi\<close> on a non-empty string of decimal digits (the only strings it is called
  on): the value, or the exception \<open>std::out_of_range\<close> when the value does not fit
  an \<open>int\<close>.
\<close>

definition digits_value :: "string \<Rightarrow> int" where
  "digits_value s = foldl (\<lambda>acc c. acc * 10 + (int (of_char c) - 48)) 0 s"

definition stoi :: "string \<Rightarrow> error + int" where
  "stoi s = (if digits_value s > INT_MAX then Inl OutOfRange else Inr (digits_value s))"

definition get_positive_integer :: "string \<Rightarrow> error + int" where
  "get_positive_integer s =
     (if s \<noteq> [] \<and> list_all isdigit s then stoi s else Inr (- 1))"

definition is_game_over :: "AceyDucey \<Rightarrow> bool" where
  "is_game_over g = (balance g \<le> 0)"

text \<open>\<open>+=\<close> and \<open>-=\<close> on \<open>int\<close>: defined only when the result is an \<open>int\<close>.\<close>

definition int_add :: "int \<Rightarrow> int \<Rightarrow> error + int" where
  "int_add a b =
     (if INT_MIN \<le> a + b \<and> a + b \<le> INT_MAX then Inr (a + b) else Inl SignedOverflow)"

definition int_sub :: "int \<Rightarrow> int \<Rightarrow> error + int" where
  "int_sub a b =
     (if INT_MIN \<le> a - b \<and> a - b \<le> INT_MAX then Inr (a - b) else Inl SignedOverflow)"

text \<open>
  \<open>play_turn\<close>, in three pieces that follow the source's text: \<open>blew_your_wad\<close> is
  the block guarded by \<open>if (balance <= 0)\<close> after a loss, \<open>settle\<close> the last
  \<open>else\<close> branch (third card, comparison, \<open>balance += bet\<close> or \<open>balance -= bet\<close>),
  and \<open>play_turn\<close> the whole function, ending with the assignment
  \<open>state = State::Playing\<close> that every path but the early \<open>return\<close> reaches.
\<close>

definition blew_your_wad :: "AceyDucey \<Rightarrow> AceyDucey" where
  "blew_your_wad g =
     (if balance g \<le> 0
      then (let g = println ''SORRY, FRIEND, BUT YOU BLEW YOUR WAD.'' g;
                g = print ''TRY AGAIN (YES OR NO)? '' g;
                (response, g) = get_input_line g
            in if response = ''YES''
               then g\<lparr>state := Playing, balance := 100\<rparr>
               else g\<lparr>state := GameOver\<rparr>)
      else g)"

definition settle :: "string \<Rightarrow> string \<Rightarrow> int \<Rightarrow> AceyDucey \<Rightarrow> error + AceyDucey" where
  "settle first_pick second_pick bet g =
     (let (third_pick, g) = deal_card g;
          g = println third_pick g
      in if is_between first_pick second_pick third_pick
         then (let g = println ''YOU WIN!!!'' g
               in case int_add (balance g) bet of
                    Inl e \<Rightarrow> Inl e
                  | Inr b \<Rightarrow> Inr (g\<lparr>balance := b\<rparr>))
         else (let g = println ''SORRY, YOU LOSE'' g
               in case int_sub (balance g) bet of
                    Inl e \<Rightarrow> Inl e
                  | Inr b \<Rightarrow> Inr (blew_your_wad (g\<lparr>balance := b\<rparr>))))"

definition play_turn :: "AceyDucey \<Rightarrow> error + AceyDucey" where
  "play_turn g =
     (let g = (if state g = Playing
               then println (''YOU NOW HAVE $'' @ show_int (balance g) @ '' DOLLARS'') g
               else g);
          g = println ''HERE ARE YOUR NEXT TWO CARDS:'' g;
          (first_pick, g) = deal_card g;
          (second_pick, g) = deal_card g;
          g = print_cards first_pick second_pick g;
          g = print ''WHAT IS YOUR BET '' g;
          (line, g) = get_input_line g
      in case get_positive_integer line of
           Inl e \<Rightarrow> Inl e
         | Inr bet \<Rightarrow>
             if bet \<le> 0
             then Inr ((println ''CHICKEN!!'' g)\<lparr>state := BetNothing\<rparr>)
             else (case (if bet > balance g
                         then (let g = println ''SORRY, MY FRIEND, BUT YOU BET TOO MUCH.'' g
                               in Inr (println (''YOU HAVE ONLY '' @ show_int (balance g)
                                                 @ '' DOLLARS TO BET.'') g))
                         else settle first_pick second_pick bet g) of
                     Inl e \<Rightarrow> Inl e
                   | Inr g \<Rightarrow> Inr (g\<lparr>state := Playing\<rparr>)))"

text \<open>
  \<open>run\<close>: \<open>run_body\<close> is the \<open>switch\<close> inside the loop, \<open>run\<close> the \<open>while\<close> loop
  around it. The loop need not end, so \<open>run\<close> is a partial function: \<open>None\<close> is a
  game that goes on for ever, \<open>Some (Inl e)\<close> one that is stopped by \<open>e\<close>, and
  \<open>Some (Inr g)\<close> one that returns with the object as \<open>g\<close>.
\<close>

definition farewell :: string where
  "farewell = ''GAME OVER. Thanks for playing!''"

definition run_body :: "AceyDucey \<Rightarrow> error + AceyDucey" where
  "run_body g =
     (case state g of
        Initialising \<Rightarrow> Inr ((print_instructions (print_intro g))\<lparr>state := Playing\<rparr>)
      | Playing \<Rightarrow>
          (case play_turn g of
             Inl e \<Rightarrow> Inl e
           | Inr g \<Rightarrow> Inr (if is_game_over g then g\<lparr>state := GameOver\<rparr> else g))
      | BetNothing \<Rightarrow>
          (case play_turn g of
             Inl e \<Rightarrow> Inl e
           | Inr g \<Rightarrow> Inr (if is_game_over g then g\<lparr>state := GameOver\<rparr> else g))
      | GameOver \<Rightarrow> Inr (println farewell g))"

partial_function (option) run :: "AceyDucey \<Rightarrow> (error + AceyDucey) option" where
  "run g = (if state g \<noteq> GameOver
            then (case run_body g of Inl e \<Rightarrow> Some (Inl e) | Inr g' \<Rightarrow> run g')
            else Some (Inr g))"

text \<open>
  The loop cut off after at most \<open>n\<close> passes: the object as it stands at the head of
  the loop then (or earlier, if the loop has ended). It gives the states in which the
  loop can find the object.
\<close>

fun run_steps :: "nat \<Rightarrow> AceyDucey \<Rightarrow> error + AceyDucey" where
  "run_steps 0 g = Inr g"
| "run_steps (Suc n) g =
     (if state g \<noteq> GameOver
      then (case run_body g of Inl e \<Rightarrow> Inl e | Inr g' \<Rightarrow> run_steps n g')
      else Inr g)"

text \<open>Whether the farewell line of \<open>run\<close> is among the lines written so far.\<close>

definition says_farewell :: "AceyDucey \<Rightarrow> bool" where
  "says_farewell g = (farewell @ ''\<newline>'' \<in> set (cout g))"

section \<open>Properties of the comparison\<close>

lemma ranges_find_nth:
  "distinct xs \<Longrightarrow> i < length xs \<Longrightarrow> ranges_find xs (xs ! i) = i"
proof (induction xs arbitrary: i)
  case Nil
  then show ?case by simp
next
  case (Cons x xs)
  show ?case
  proof (cases i)
    case 0
    then show ?thesis by simp
  next
    case (Suc j)
    with Cons.prems have "xs ! j \<in> set xs" and "x \<notin> set xs" by simp_all
    then have "x \<noteq> xs ! j" by metis
    with Suc Cons show ?thesis by simp
  qed
qed

lemma distinct_CARDS: "distinct CARDS"
  by (simp add: CARDS_def)

lemma length_CARDS: "length CARDS = 13"
  by (simp add: CARDS_def)

lemma index_of_nth: "i < 13 \<Longrightarrow> index_of (CARDS ! i) = int i"
  by (simp add: index_of_def ranges_find_nth distinct_CARDS length_CARDS)

lemma is_between_index:
  "is_between a b test \<longleftrightarrow>
     min (index_of a) (index_of b) < index_of test \<and>
     index_of test < max (index_of a) (index_of b)"
  by (auto simp: is_between_def Let_def)

text \<open>
  Claim C1. For rank labels taken from the table of 13 ranks, at the positions \<open>i\<close>,
  \<open>j\<close> and \<open>k\<close>, \<open>is_between\<close> is true exactly when \<open>k\<close> is strictly greater than
  the smaller of \<open>i\<close> and \<open>j\<close> and strictly less than the larger; it is false when
  \<open>k\<close> equals either bound, and false for every test card when both bounds are the
  same card.
\<close>

theorem is_between_strict_interval:
  assumes "i < 13" and "j < 13" and "k < 13"
  shows "(is_between (CARDS ! i) (CARDS ! j) (CARDS ! k) \<longleftrightarrow> min i j < k \<and> k < max i j)
       \<and> (k = i \<or> k = j \<longrightarrow> \<not> is_between (CARDS ! i) (CARDS ! j) (CARDS ! k))
       \<and> \<not> is_between (CARDS ! i) (CARDS ! i) (CARDS ! k)"
proof -
  have eq: "is_between (CARDS ! i) (CARDS ! j) (CARDS ! k) \<longleftrightarrow> min i j < k \<and> k < max i j"
    using assms by (simp add: is_between_index index_of_nth min_def max_def)
  have same: "\<not> is_between (CARDS ! i) (CARDS ! i) (CARDS ! k)"
    by (simp add: is_between_index)
  from eq same show ?thesis by auto
qed

theorem is_between_strict_interval_witness:
  "(0::nat) < 13 \<and> (12::nat) < 13 \<and> (5::nat) < 13
   \<and> is_between ''2'' ''A'' ''7'' \<and> \<not> is_between ''2'' ''A'' ''A''
   \<and> \<not> is_between ''2'' ''2'' ''7''"
  using is_between_strict_interval [of 0 12 5] is_between_strict_interval [of 0 12 12]
  by (simp add: CARDS_def)

text \<open>
  Claim C9. The two bound cards may be given in either order: \<open>is_between a b test\<close>
  and \<open>is_between b a test\<close> are equal, for all labels (in the table or not).
\<close>

theorem is_between_commute: "is_between a b test = is_between b a test"
  by (auto simp: is_between_index)

section \<open>What the console operations leave alone\<close>

lemma println_simps [simp]:
  "cin (println s g) = cin g" "rng (println s g) = rng g" "balance (println s g) = balance g"
  "state (println s g) = state g" "cerr (println s g) = cerr g"
  "cout (println s g) = cout g @ [s @ ''\<newline>'']"
  by (simp_all add: println_def)

lemma print_simps [simp]:
  "cin (print s g) = cin g" "rng (print s g) = rng g" "balance (print s g) = balance g"
  "state (print s g) = state g" "cerr (print s g) = cerr g"
  "cout (print s g) = cout g @ [s]"
  by (simp_all add: print_def)

lemma print_cards_simps [simp]:
  "cin (print_cards a b g) = cin g" "rng (print_cards a b g) = rng g"
  "balance (print_cards a b g) = balance g" "state (print_cards a b g) = state g"
  by (simp_all add: print_cards_def Let_def split: prod.splits)

lemma print_intro_simps [simp]:
  "cin (print_intro g) = cin g" "rng (print_intro g) = rng g"
  "balance (print_intro g) = balance g" "state (print_intro g) = state g"
  "cerr (print_intro g) = cerr g"
  by (simp_all add: print_intro_def)

lemma print_instructions_simps [simp]:
  "cin (print_instructions g) = cin g" "rng (print_instructions g) = rng g"
  "balance (print_instructions g) = balance g" "state (print_instructions g) = state g"
  "cerr (print_instructions g) = cerr g"
  by (simp_all add: print_instructions_def)

lemma deal_card_simps [simp]:
  "cin (snd (deal_card g)) = cin g" "rng (snd (deal_card g)) = stl (rng g)"
  "balance (snd (deal_card g)) = balance g" "state (snd (deal_card g)) = state g"
  "cout (snd (deal_card g)) = cout g" "cerr (snd (deal_card g)) = cerr g"
  by (simp_all add: deal_card_def)

lemma get_input_line_simps [simp]:
  "cin (snd (get_input_line g)) = tl (cin g)" "rng (snd (get_input_line g)) = rng g"
  "balance (snd (get_input_line g)) = balance g" "state (snd (get_input_line g)) = state g"
  "cout (snd (get_input_line g)) = cout g" "cerr (snd (get_input_line g)) = cerr g"
  by (simp_all add: get_input_line_def getline_def split: list.splits)

lemma fst_get_input_line_eq [simp]:
  "fst (get_input_line g) = map toupper (trim (case cin g of [] \<Rightarrow> [] | l # _ \<Rightarrow> l))"
  by (simp add: get_input_line_def getline_def split: list.splits)

lemma fst_deal_card_eq [simp]:
  "fst (deal_card g) = deck ! (shd (rng g) mod length deck)"
  by (simp add: deal_card_def)

text \<open>Rewrite rules that compute the functions on given strings, cards and objects.\<close>

lemmas parse_eval = trim_def toupper_def isspace_def isdigit_def get_positive_integer_def
  stoi_def digits_value_def INT_MAX_def INT_MIN_def int_add_def int_sub_def char_of_eq_iff

lemmas cards_eval = deck_def CARDS_def is_between_def index_of_def print_cards_def
  print_cards_index_of_def

lemmas show_eval = show_int_def show_nat.simps char_of_eq_iff

lemmas round_defs = play_turn_def settle_def blew_your_wad_def Let_def split_beta

lemmas turn_eval = run_body_def round_defs is_game_over_def parse_eval cards_eval

section \<open>Reading a bet\<close>

lemma get_positive_integer_cases:
  "get_positive_integer s =
     (if s = [] \<or> \<not> list_all isdigit s then Inr (- 1)
      else if digits_value s \<le> INT_MAX then Inr (digits_value s)
      else Inl OutOfRange)"
  by (auto simp: get_positive_integer_def stoi_def)

lemma digits_value_snoc:
  "digits_value (s @ [c]) = 10 * digits_value s + (int (of_char c) - 48)"
  by (simp add: digits_value_def)

text \<open>
  Claim C7 says that \<open>get_positive_integer\<close> returns the numeric value of every
  non-empty string of decimal digits. It does so only while the value fits an \<open>int\<close>
  (\<open>get_positive_integer_cases\<close>): on the eleven digits \<open>99999999999\<close>, \<open>std::stoi\<close>
  throws \<open>std::out_of_range\<close>, \<open>get_positive_integer\<close> returns nothing, and a game
  that reads this line as its first bet is ended by the exception.
\<close>

theorem get_positive_integer_out_of_range:
  "get_positive_integer ''99999999999'' = Inl OutOfRange
   \<and> run (AceyDucey_new (cycle [0, 12, 5]) [''99999999999'']) = Some (Inl OutOfRange)"
  by (simp add: run.simps AceyDucey_new_def turn_eval)

lemmas console_eval = get_input_line_def getline_def deal_card_def print_def println_def

lemmas game_eval = run_body_def play_turn_def settle_def blew_your_wad_def Let_def
  is_game_over_def parse_eval cards_eval show_eval console_eval

section \<open>One round\<close>

text \<open>
  Claim C3. When the line read for the bet is empty or has a character that is not a
  digit (\<open>get_positive_integer\<close> then answers -1), or when it parses to a value of at
  most 0, \<open>play_turn\<close> returns normally: the last text written is \<open>CHICKEN!!\<close>, right
  after the prompt for the bet, the state is \<open>BetNothing\<close>, the balance is unchanged,
  and exactly two cards have been taken from the random engine (no third card).
\<close>

theorem play_turn_chicken:
  fixes g :: AceyDucey
  defines "line \<equiv> fst (get_input_line g)"
  assumes "line = [] \<or> \<not> list_all isdigit line
           \<or> (\<exists>bet. get_positive_integer line = Inr bet \<and> bet \<le> 0)"
  shows "\<exists>g'. play_turn g = Inr g'
           \<and> last (cout g') = ''CHICKEN!!\<newline>''
           \<and> last (butlast (cout g')) = ''WHAT IS YOUR BET ''
           \<and> state g' = BetNothing
           \<and> balance g' = balance g
           \<and> rng g' = stl (stl (rng g))"
proof -
  have "\<exists>bet. get_positive_integer line = Inr bet \<and> bet \<le> 0"
    using assms(2)
    by (cases "line \<noteq> [] \<and> list_all isdigit line") (auto simp: get_positive_integer_def)
  then obtain bet where b: "get_positive_integer (fst (get_input_line g)) = Inr bet" "bet \<le> 0"
    unfolding line_def by blast
  show ?thesis
    using b by (simp add: round_defs butlast_append)
qed

theorem play_turn_chicken_witness:
  "\<not> list_all isdigit (fst (get_input_line
        \<lparr>balance = 100, state = Playing, rng = cycle [0, 12, 5], cin = [''  chicken ''],
         cout = [], cerr = []\<rparr>))
   \<and> play_turn \<lparr>balance = 100, state = Playing, rng = cycle [0, 12, 5], cin = [''  chicken ''],
         cout = [], cerr = []\<rparr>
     = Inr \<lparr>balance = 100, state = BetNothing, rng = cycle [5, 0, 12], cin = [],
            cout = [''YOU NOW HAVE $100 DOLLARS\<newline>'', ''HERE ARE YOUR NEXT TWO CARDS:\<newline>'',
                    ''2 A\<newline>'', ''WHAT IS YOUR BET '', ''CHICKEN!!\<newline>''], cerr = []\<rparr>"
  using play_turn_chicken [of "\<lparr>balance = 100, state = Playing, rng = cycle [0, 12, 5],
         cin = [''  chicken ''], cout = [], cerr = []\<rparr>"]
  by (simp add: game_eval)

text \<open>
  Claim C4. When the parsed bet is above the balance (a round starts with a positive
  balance, so such a bet is positive), \<open>play_turn\<close>
  returns normally: the last two texts written are the warning and the line that names
  the balance, right after the prompt for the bet; the balance is unchanged, exactly two
  cards have been taken from the random engine, and the state is \<open>Playing\<close>, also after
  the check that \<open>run\<close> makes on a positive balance.
\<close>

theorem play_turn_bet_too_much:
  fixes g :: AceyDucey
  assumes "get_positive_integer (fst (get_input_line g)) = Inr bet"
      and "0 < bet" and "balance g < bet"
  shows "\<exists>g'. play_turn g = Inr g'
           \<and> last (cout g') = ''YOU HAVE ONLY '' @ show_int (balance g) @ '' DOLLARS TO BET.\<newline>''
           \<and> last (butlast (cout g')) = ''SORRY, MY FRIEND, BUT YOU BET TOO MUCH.\<newline>''
           \<and> last (butlast (butlast (cout g'))) = ''WHAT IS YOUR BET ''
           \<and> state g' = Playing
           \<and> balance g' = balance g
           \<and> rng g' = stl (stl (rng g))
           \<and> ((state g = Playing \<or> state g = BetNothing) \<and> 0 < balance g
                \<longrightarrow> run_body g = Inr g')"
  using assms by (auto simp add: round_defs butlast_append run_body_def is_game_over_def)

theorem play_turn_bet_too_much_witness:
  "get_positive_integer (fst (get_input_line
        \<lparr>balance = 100, state = BetNothing, rng = cycle [0, 12, 5], cin = ['' 0101''],
         cout = [], cerr = []\<rparr>)) = Inr 101
   \<and> play_turn \<lparr>balance = 100, state = BetNothing, rng = cycle [0, 12, 5], cin = ['' 0101''],
         cout = [], cerr = []\<rparr>
     = Inr \<lparr>balance = 100, state = Playing, rng = cycle [5, 0, 12], cin = [],
            cout = [''HERE ARE YOUR NEXT TWO CARDS:\<newline>'',
                    ''2 A\<newline>'', ''WHAT IS YOUR BET '',
                    ''SORRY, MY FRIEND, BUT YOU BET TOO MUCH.\<newline>'',
                    ''YOU HAVE ONLY 100 DOLLARS TO BET.\<newline>''], cerr = []\<rparr>"
  using play_turn_bet_too_much [of "\<lparr>balance = 100, state = BetNothing, rng = cycle [0, 12, 5],
         cin = ['' 0101''], cout = [], cerr = []\<rparr>" 101]
  by (simp add: game_eval)

text \<open>
  Claim C10. \<open>play_turn\<close> never returns with the state \<open>GameOver\<close>: the state is
  \<open>BetNothing\<close> after the early return and \<open>Playing\<close> after the last assignment, which
  also overwrites the \<open>GameOver\<close> of the block for an empty balance. A pass of the loop
  that ends in \<open>GameOver\<close> is therefore a round that \<open>play_turn\<close> left in another state
  with a balance of at most 0, turned into \<open>GameOver\<close> by the check in \<open>run\<close>.
\<close>

theorem play_turn_state:
  "(play_turn g = Inr g' \<longrightarrow> state g' = Playing \<or> state g' = BetNothing)
   \<and> (state g \<noteq> GameOver \<and> run_body g = Inr g'' \<and> state g'' = GameOver \<longrightarrow>
        (\<exists>g'. play_turn g = Inr g' \<and> state g' \<noteq> GameOver \<and> balance g' \<le> 0
              \<and> g'' = g'\<lparr>state := GameOver\<rparr>))"
proof -
  have a: "state g' = Playing \<or> state g' = BetNothing" if "play_turn g = Inr g'" for g g'
    using that by (auto simp: play_turn_def Let_def split_beta split: sum.splits if_splits)
  have b: "\<exists>g'. play_turn g = Inr g' \<and> state g' \<noteq> GameOver \<and> balance g' \<le> 0
                \<and> g'' = g'\<lparr>state := GameOver\<rparr>"
    if "state g \<noteq> GameOver" "run_body g = Inr g''" "state g'' = GameOver"
    using that a [of g]
    by (auto simp: run_body_def is_game_over_def split: State.splits sum.splits if_splits)
  from a b show ?thesis by blast
qed

theorem play_turn_state_witness:
  "play_turn \<lparr>balance = 100, state = Playing, rng = cycle [0, 12, 12], cin = [''100'', ''no''],
         cout = [], cerr = []\<rparr>
     = Inr \<lparr>balance = 0, state = Playing, rng = cycle [0, 12, 12], cin = [],
            cout = [''YOU NOW HAVE $100 DOLLARS\<newline>'', ''HERE ARE YOUR NEXT TWO CARDS:\<newline>'',
                    ''2 A\<newline>'', ''WHAT IS YOUR BET '', ''A\<newline>'', ''SORRY, YOU LOSE\<newline>'',
                    ''SORRY, FRIEND, BUT YOU BLEW YOUR WAD.\<newline>'',
                    ''TRY AGAIN (YES OR NO)? ''], cerr = []\<rparr>
   \<and> run_body \<lparr>balance = 100, state = Playing, rng = cycle [0, 12, 12], cin = [''100'', ''no''],
         cout = [], cerr = []\<rparr>
     = Inr \<lparr>balance = 0, state = GameOver, rng = cycle [0, 12, 12], cin = [],
            cout = [''YOU NOW HAVE $100 DOLLARS\<newline>'', ''HERE ARE YOUR NEXT TWO CARDS:\<newline>'',
                    ''2 A\<newline>'', ''WHAT IS YOUR BET '', ''A\<newline>'', ''SORRY, YOU LOSE\<newline>'',
                    ''SORRY, FRIEND, BUT YOU BLEW YOUR WAD.\<newline>'',
                    ''TRY AGAIN (YES OR NO)? ''], cerr = []\<rparr>"
  using play_turn_state [of "\<lparr>balance = 100, state = Playing, rng = cycle [0, 12, 12],
         cin = [''100'', ''no''], cout = [], cerr = []\<rparr>"]
  by (simp add: game_eval)

section \<open>The loop\<close>

lemma run_GameOver: "state g = GameOver \<Longrightarrow> run g = Some (Inr g)"
  by (subst run.simps) simp

lemma run_step: "state g \<noteq> GameOver \<Longrightarrow> run_body g = Inr g' \<Longrightarrow> run g = run g'"
  by (subst run.simps) simp

lemma run_error: "state g \<noteq> GameOver \<Longrightarrow> run_body g = Inl e \<Longrightarrow> run g = Some (Inl e)"
  by (subst run.simps) simp

text \<open>The loop cut off after \<open>n\<close> passes and the loop itself agree.\<close>

lemma run_steps_run:
  "run_steps n g = Inr g' \<Longrightarrow> state g' = GameOver \<Longrightarrow> run g = Some (Inr g')"
proof (induction n arbitrary: g)
  case 0
  then show ?case by (simp add: run_GameOver)
next
  case (Suc n)
  show ?case
  proof (cases "state g = GameOver")
    case True
    with Suc.prems show ?thesis by (simp add: run_GameOver)
  next
    case False
    with Suc.prems obtain h where h: "run_body g = Inr h" "run_steps n h = Inr g'"
      by (auto split: sum.splits)
    with Suc.IH [of h] Suc.prems False show ?thesis by (simp add: run_step)
  qed
qed

lemma run_steps_error:
  "run_steps n g = Inl e \<Longrightarrow> run g = Some (Inl e)"
proof (induction n arbitrary: g)
  case 0
  then show ?case by simp
next
  case (Suc n)
  then have ng: "state g \<noteq> GameOver" by (auto split: if_splits)
  show ?case
  proof (cases "run_body g")
    case (Inl e')
    with Suc.prems ng show ?thesis by (simp add: run_error)
  next
    case (Inr h)
    with Suc.prems ng have "run_steps n h = Inl e" by simp
    with Suc.IH [of h] Inr ng show ?thesis by (simp add: run_step)
  qed
qed

lemma run_returns_run_steps:
  assumes "run g = Some r"
  shows "\<exists>n. run_steps n g = r \<and> (case r of Inl e \<Rightarrow> True | Inr g' \<Rightarrow> state g' = GameOver)"
  using assms
proof (induction g r rule: run.raw_induct [rotated, consumes 1, case_names step])
  case (step run g r)
  show ?case
  proof (cases "state g = GameOver")
    case True
    with step(2)
    have "run_steps 0 g = r \<and> (case r of Inl e \<Rightarrow> True | Inr g' \<Rightarrow> state g' = GameOver)"
      by auto
    then show ?thesis by blast
  next
    case False
    show ?thesis
    proof (cases "run_body g")
      case (Inl e)
      with False step(2)
      have "run_steps (Suc 0) g = r
            \<and> (case r of Inl e \<Rightarrow> True | Inr g' \<Rightarrow> state g' = GameOver)"
        by auto
      then show ?thesis by blast
    next
      case (Inr h)
      with False step(2) have "run h = Some r" by simp
      from step(1) [OF this] obtain n where "run_steps n h = r"
        and fin: "(case r of Inl e \<Rightarrow> True | Inr g' \<Rightarrow> state g' = GameOver)" by blast
      with False Inr have "run_steps (Suc n) g = r" by simp
      with fin show ?thesis by blast
    qed
  qed
qed

text \<open>
  Claim C5. In a round where the bet is accepted, the third card is not between the
  first two and the loss leaves a balance of at most 0, the last two texts written are
  \<open>SORRY, FRIEND, BUT YOU BLEW YOUR WAD.\<close> and the question \<open>TRY AGAIN (YES OR NO)?\<close>.
  When the next line of input, trimmed and in upper case, is \<open>YES\<close>, the pass of the
  loop ends with a balance of 100 and the state \<open>Playing\<close>; for any other answer it ends
  with the state \<open>GameOver\<close>, and \<open>run\<close> returns at its next test. The second part
  is the block of \<open>play_turn\<close> on its own: on a balance of at most 0 it sets the balance
  to 100 and the state to \<open>Playing\<close> on \<open>YES\<close>, and the state to \<open>GameOver\<close> on any
  other answer.
\<close>

theorem blew_your_wad_then_yes_or_no:
  fixes g :: AceyDucey and h :: AceyDucey
  defines "first_pick \<equiv> fst (deal_card g)"
    and "second_pick \<equiv> fst (deal_card (snd (deal_card g)))"
    and "third_pick \<equiv> fst (deal_card (snd (deal_card (snd (deal_card g)))))"
    and "response \<equiv> map toupper (trim (case tl (cin g) of [] \<Rightarrow> [] | l # _ \<Rightarrow> l))"
  assumes "state g = Playing \<or> state g = BetNothing"
    and "get_positive_integer (fst (get_input_line g)) = Inr bet"
    and "0 < bet" and "bet \<le> balance g"
    and "\<not> is_between first_pick second_pick third_pick"
    and "balance g - bet \<le> 0"
  shows "(\<exists>g'. run_body g = Inr g'
          \<and> last (butlast (cout g')) = ''SORRY, FRIEND, BUT YOU BLEW YOUR WAD.\<newline>''
          \<and> last (cout g') = ''TRY AGAIN (YES OR NO)? ''
          \<and> (response = ''YES'' \<longrightarrow> balance g' = 100 \<and> state g' = Playing)
          \<and> (response \<noteq> ''YES'' \<longrightarrow> state g' = GameOver \<and> run g' = Some (Inr g')))
       \<and> (balance h \<le> 0 \<longrightarrow>
            (fst (get_input_line h) = ''YES'' \<longrightarrow>
               balance (blew_your_wad h) = 100 \<and> state (blew_your_wad h) = Playing)
          \<and> (fst (get_input_line h) \<noteq> ''YES'' \<longrightarrow> state (blew_your_wad h) = GameOver))"
proof -
  have sub: "int_sub (balance g) bet = Inr (balance g - bet)"
    using assms by (simp add: int_sub_def INT_MIN_def INT_MAX_def)
  have loop: "\<exists>g'. run_body g = Inr g'
          \<and> last (butlast (cout g')) = ''SORRY, FRIEND, BUT YOU BLEW YOUR WAD.\<newline>''
          \<and> last (cout g') = ''TRY AGAIN (YES OR NO)? ''
          \<and> (response = ''YES'' \<longrightarrow> balance g' = 100 \<and> state g' = Playing)
          \<and> (response \<noteq> ''YES'' \<longrightarrow> state g' = GameOver \<and> run g' = Some (Inr g'))"
    using assms(5)
  proof
    assume "state g = Playing"
    then show ?thesis
      unfolding run_body_def
      using assms(6,7,8,9,10) sub
      by (cases "response = ''YES''")
         (simp_all add: round_defs butlast_append is_game_over_def run_GameOver
             response_def first_pick_def second_pick_def third_pick_def)
  next
    assume "state g = BetNothing"
    then show ?thesis
      unfolding run_body_def
      using assms(6,7,8,9,10) sub
      by (cases "response = ''YES''")
         (simp_all add: round_defs butlast_append is_game_over_def run_GameOver
             response_def first_pick_def second_pick_def third_pick_def)
  qed
  have block: "balance h \<le> 0 \<longrightarrow>
            (fst (get_input_line h) = ''YES'' \<longrightarrow>
               balance (blew_your_wad h) = 100 \<and> state (blew_your_wad h) = Playing)
          \<and> (fst (get_input_line h) \<noteq> ''YES'' \<longrightarrow> state (blew_your_wad h) = GameOver)"
    by (simp add: blew_your_wad_def Let_def split_beta)
  from loop block show ?thesis by blast
qed

theorem blew_your_wad_then_yes_or_no_witness:
  "get_positive_integer (fst (get_input_line
      \<lparr>balance = 100, state = Playing, rng = cycle [0, 12, 12], cin = [''100'', '' yes ''],
       cout = [], cerr = []\<rparr>)) = Inr 100
   \<and> \<not> is_between ''2'' ''A'' ''A''
   \<and> run_body \<lparr>balance = 100, state = Playing, rng = cycle [0, 12, 12], cin = [''100'', '' yes ''],
         cout = [], cerr = []\<rparr>
     = Inr \<lparr>balance = 100, state = Playing, rng = cycle [0, 12, 12], cin = [],
            cout = [''YOU NOW HAVE $100 DOLLARS\<newline>'', ''HERE ARE YOUR NEXT TWO CARDS:\<newline>'',
                    ''2 A\<newline>'', ''WHAT IS YOUR BET '', ''A\<newline>'', ''SORRY, YOU LOSE\<newline>'',
                    ''SORRY, FRIEND, BUT YOU BLEW YOUR WAD.\<newline>'',
                    ''TRY AGAIN (YES OR NO)? ''], cerr = []\<rparr>
   \<and> state (blew_your_wad \<lparr>balance = 0, state = Playing, rng = cycle [0, 12, 12],
         cin = [''maybe''], cout = [], cerr = []\<rparr>) = GameOver"
  using blew_your_wad_then_yes_or_no [of "\<lparr>balance = 100, state = Playing, rng = cycle [0, 12, 12],
         cin = [''100'', '' yes ''], cout = [], cerr = []\<rparr>" 100
         "\<lparr>balance = 0, state = Playing, rng = cycle [0, 12, 12],
         cin = [''maybe''], cout = [], cerr = []\<rparr>"]
  by (simp add: game_eval)

section \<open>The balance at the head of the loop\<close>

lemma run_body_positive:
  assumes "state g \<noteq> GameOver" "0 < balance g" "run_body g = Inr g'" "state g' \<noteq> GameOver"
  shows "0 < balance g'"
  using assms
  by (auto simp: run_body_def is_game_over_def split: State.splits sum.splits if_splits)

lemma run_steps_positive:
  "run_steps n g = Inr g' \<Longrightarrow> state g \<noteq> GameOver \<longrightarrow> 0 < balance g
     \<Longrightarrow> state g' \<noteq> GameOver \<Longrightarrow> 0 < balance g'"
proof (induction n arbitrary: g)
  case 0
  then show ?case by simp
next
  case (Suc n)
  show ?case
  proof (cases "state g = GameOver")
    case True
    with Suc.prems show ?thesis by simp
  next
    case False
    with Suc.prems obtain h where h: "run_body g = Inr h" "run_steps n h = Inr g'"
      by (auto split: sum.splits)
    have "state h \<noteq> GameOver \<longrightarrow> 0 < balance h"
      using run_body_positive [OF False _ h(1)] Suc.prems(2) False by blast
    with Suc.IH [OF h(2)] Suc.prems(3) show ?thesis by blast
  qed
qed

text \<open>
  Claim C6. Take the object as \<open>run\<close> finds it at the head of its loop, after any
  number of passes from the state the constructor leaves, for any input and any random
  values. If the state is \<open>Playing\<close> or \<open>BetNothing\<close>, the states in which the pass
  calls \<open>play_turn\<close>, the balance is positive; and if the balance is 0 or less, the
  state is \<open>GameOver\<close>, on which the loop ends.
\<close>

theorem no_round_without_money:
  assumes "run_steps n (AceyDucey_new seed input) = Inr g"
  shows "(state g = Playing \<or> state g = BetNothing \<longrightarrow> 0 < balance g)
       \<and> (balance g \<le> 0 \<longrightarrow> state g = GameOver)"
proof -
  have "state g \<noteq> GameOver \<Longrightarrow> 0 < balance g"
    using run_steps_positive [OF assms] by (simp add: AceyDucey_new_def)
  then show ?thesis by fastforce
qed

theorem no_round_without_money_witness:
  "(case run_steps 2 (AceyDucey_new (cycle [0, 12, 12]) [''40'']) of
      Inl e \<Rightarrow> False | Inr g \<Rightarrow> state g = Playing \<and> balance g = 60)
   \<and> (case run_steps 2 (AceyDucey_new (cycle [0, 12, 12]) [''100'', ''no'']) of
      Inl e \<Rightarrow> False | Inr g \<Rightarrow> state g = GameOver \<and> balance g = 0)"
proof -
  have "\<exists>g. run_steps 2 (AceyDucey_new (cycle [0, 12, 12]) [''40'']) = Inr g
          \<and> state g = Playing \<and> balance g = 60"
    by (simp add: numeral_2_eq_2 AceyDucey_new_def turn_eval)
  then obtain g where g: "run_steps 2 (AceyDucey_new (cycle [0, 12, 12]) [''40'']) = Inr g"
    "state g = Playing" "balance g = 60" by blast
  have "\<exists>h. run_steps 2 (AceyDucey_new (cycle [0, 12, 12]) [''100'', ''no'']) = Inr h
          \<and> state h = GameOver \<and> balance h = 0"
    by (simp add: numeral_2_eq_2 AceyDucey_new_def turn_eval)
  then obtain h where h: "run_steps 2 (AceyDucey_new (cycle [0, 12, 12]) [''100'', ''no'']) = Inr h"
    "state h = GameOver" "balance h = 0" by blast
  from no_round_without_money [OF g(1)] no_round_without_money [OF h(1)] g h
  show ?thesis by simp
qed

section \<open>Settling an accepted bet\<close>

text \<open>
  An accepted bet, on an object whose balance is an \<open>int\<close>: a third card is dealt; a win
  adds the bet to the balance when the sum is an \<open>int\<close>, and otherwise the addition
  overflows; a loss takes the bet off the balance, and when nothing is left the answer
  to the question decides between a balance of 100 and a balance of 0.
\<close>

lemma play_turn_settles:
  fixes g :: AceyDucey
  defines "first_pick \<equiv> fst (deal_card g)"
    and "second_pick \<equiv> fst (deal_card (snd (deal_card g)))"
    and "third_pick \<equiv> fst (deal_card (snd (deal_card (snd (deal_card g)))))"
    and "response \<equiv> map toupper (trim (case tl (cin g) of [] \<Rightarrow> [] | l # _ \<Rightarrow> l))"
  assumes "get_positive_integer (fst (get_input_line g)) = Inr bet"
    and "0 < bet" and "bet \<le> balance g" and "balance g \<le> INT_MAX"
  shows "is_between first_pick second_pick third_pick \<Longrightarrow> balance g + bet \<le> INT_MAX \<Longrightarrow>
           \<exists>g'. play_turn g = Inr g' \<and> balance g' = balance g + bet
                \<and> rng g' = stl (stl (stl (rng g)))"
    and "is_between first_pick second_pick third_pick \<Longrightarrow> INT_MAX < balance g + bet \<Longrightarrow>
           play_turn g = Inl SignedOverflow"
    and "\<not> is_between first_pick second_pick third_pick \<Longrightarrow>
           \<exists>g'. play_turn g = Inr g' \<and> rng g' = stl (stl (stl (rng g)))
                \<and> balance g' = (if bet < balance g then balance g - bet
                                 else if response = ''YES'' then 100 else 0)"
  using assms(5-8)
  by (simp_all add: round_defs int_add_def int_sub_def INT_MIN_def INT_MAX_def
        first_pick_def second_pick_def third_pick_def response_def)

lemma doubling_round:
  assumes "get_positive_integer (map toupper (trim s)) = Inr b" and "0 < b" and "b + b \<le> INT_MAX"
  shows "\<exists>out'. run_body \<lparr>balance = b, state = Playing, rng = cycle [0, 12, 5], cin = s # rest,
                          cout = out, cerr = []\<rparr>
           = Inr \<lparr>balance = b + b, state = Playing, rng = cycle [0, 12, 5], cin = rest,
                  cout = out', cerr = []\<rparr>"
  using assms
  by (simp add: run_body_def play_turn_def settle_def is_game_over_def Let_def
        console_eval cards_eval int_add_def INT_MIN_def)

lemma overflowing_round:
  assumes "get_positive_integer (map toupper (trim s)) = Inr b" and "0 < b" and "INT_MAX < b + b"
  shows "run_body \<lparr>balance = b, state = Playing, rng = cycle [0, 12, 5], cin = s # rest,
                   cout = out, cerr = []\<rparr> = Inl SignedOverflow"
  using assms
  by (simp add: run_body_def play_turn_def settle_def is_game_over_def Let_def
        console_eval cards_eval int_add_def INT_MIN_def)

text \<open>
  Claim C2 says that a win adds exactly the bet to the balance in every round with
  \<open>0 < bet \<le> balance\<close>. The game below is one the program can be given: the engine
  deals 2, A and 7 in every round, and the player bets the whole balance each time
  (100, 200, 400, ...). After 24 wins the balance is 1677721600; the 25th bet of
  1677721600 is accepted and won, and \<open>balance += bet\<close> leaves the range of \<open>int\<close>:
  the balance does not become 3355443200.
\<close>

theorem doubled_balance_overflows:
  "run (AceyDucey_new (cycle [0, 12, 5])
     [''100'', ''200'', ''400'', ''800'', ''1600'', ''3200'', ''6400'', ''12800'', ''25600'',
      ''51200'', ''102400'', ''204800'', ''409600'', ''819200'', ''1638400'', ''3276800'',
      ''6553600'', ''13107200'', ''26214400'', ''52428800'', ''104857600'', ''209715200'',
      ''419430400'', ''838860800'', ''1677721600''])
   = Some (Inl SignedOverflow)"
proof -
  have step: "run \<lparr>balance = b, state = Playing, rng = cycle [0, 12, 5], cin = s # rest,
                   cout = out, cerr = []\<rparr> = R"
    if "get_positive_integer (map toupper (trim s)) = Inr b" and "0 < b" and "b + b \<le> INT_MAX"
      and "\<And>out'. run \<lparr>balance = b + b, state = Playing, rng = cycle [0, 12, 5], cin = rest,
                   cout = out', cerr = []\<rparr> = R"
    for b s rest out R
    using doubling_round [OF that(1,2,3), of rest out] that(4)
    by (auto simp: run_step)
  have last: "run \<lparr>balance = 1677721600, state = Playing, rng = cycle [0, 12, 5],
                   cin = [''1677721600''], cout = out, cerr = []\<rparr> = Some (Inl SignedOverflow)"
    for out
    by (rule run_error) (simp_all add: overflowing_round parse_eval)
  have "run (AceyDucey_new (cycle [0, 12, 5]) ins)
        = run \<lparr>balance = 100, state = Playing, rng = cycle [0, 12, 5], cin = ins,
               cout = cout (print_instructions (print_intro (AceyDucey_new (cycle [0, 12, 5]) ins))),
               cerr = []\<rparr>" for ins
    by (rule run_step)
       (simp_all add: AceyDucey_new_def run_body_def print_intro_def print_instructions_def
          println_def Let_def)
  also have "run \<lparr>balance = 100, state = Playing, rng = cycle [0, 12, 5],
      cin = [''100'', ''200'', ''400'', ''800'', ''1600'', ''3200'', ''6400'', ''12800'', ''25600'',
      ''51200'', ''102400'', ''204800'', ''409600'', ''819200'', ''1638400'', ''3276800'',
      ''6553600'', ''13107200'', ''26214400'', ''52428800'', ''104857600'', ''209715200'',
      ''419430400'', ''838860800'', ''1677721600''], cout = out, cerr = []\<rparr>
      = Some (Inl SignedOverflow)" for out
    apply (rule step, simp add: parse_eval, simp, simp add: INT_MAX_def, simp)+
    apply (rule last)
    done
  finally show ?thesis .
qed

section \<open>The farewell\<close>

lemma deal_card_in_CARDS: "deck ! (n mod length deck) \<in> set CARDS"
  by (simp add: deck_def length_CARDS)

lemma card_not_farewell: "c \<in> set CARDS \<Longrightarrow> c @ r \<noteq> farewell"
  by (auto simp: CARDS_def farewell_def)

lemma length_centre: "w \<le> length (centre w s)"
  by (simp add: centre_def Let_def)

lemma centre_not_farewell: "centre 66 s \<noteq> farewell"
proof
  assume "centre 66 s = farewell"
  then have "length (centre 66 s) = length farewell" by simp
  with length_centre [of 66 s] show False by (simp add: farewell_def)
qed

lemma says_farewell_simps [simp]:
  "says_farewell (println s g) \<longleftrightarrow> s = farewell \<or> says_farewell g"
  "says_farewell (print s g) \<longleftrightarrow> s = farewell @ ''\<newline>'' \<or> says_farewell g"
  "says_farewell (snd (deal_card g)) \<longleftrightarrow> says_farewell g"
  "says_farewell (snd (get_input_line g)) \<longleftrightarrow> says_farewell g"
  "says_farewell (g\<lparr>state := s'\<rparr>) \<longleftrightarrow> says_farewell g"
  "says_farewell (g\<lparr>balance := b\<rparr>) \<longleftrightarrow> says_farewell g"
  by (auto simp: says_farewell_def)

lemma says_farewell_print_cards:
  assumes "a \<in> set CARDS" and "b \<in> set CARDS"
  shows "says_farewell (print_cards a b g) \<longleftrightarrow> says_farewell g"
  using card_not_farewell [OF assms(1), of "'' '' @ b"]
        card_not_farewell [OF assms(2), of "'' '' @ a"]
  by (simp add: print_cards_def Let_def says_farewell_def)

lemma says_farewell_blew_your_wad [simp]:
  "says_farewell (blew_your_wad g) \<longleftrightarrow> says_farewell g"
  by (simp add: blew_your_wad_def Let_def split_beta farewell_def)

lemma says_farewell_settle:
  "settle a b bet g = Inr g' \<Longrightarrow> says_farewell g' \<longleftrightarrow> says_farewell g"
  using card_not_farewell [OF deal_card_in_CARDS, of "shd (rng g)" "[]"]
  by (auto simp: settle_def Let_def split_beta farewell_def split: sum.splits if_splits)

lemma says_farewell_play_turn:
  assumes "play_turn g = Inr g'"
  shows "says_farewell g' \<longleftrightarrow> says_farewell g"
  using assms
  by (auto simp: play_turn_def Let_def split_beta says_farewell_print_cards deal_card_in_CARDS
           says_farewell_settle farewell_def
           split: sum.splits if_splits)

lemma says_farewell_run_body:
  assumes "state g \<noteq> GameOver" and "run_body g = Inr g'"
  shows "says_farewell g' \<longleftrightarrow> says_farewell g"
proof (cases "state g = Initialising")
  case True
  with assms(2) have "g' = (print_instructions (print_intro g))\<lparr>state := Playing\<rparr>"
    by (simp add: run_body_def)
  then show ?thesis
    by (simp add: print_intro_def print_instructions_def Let_def centre_not_farewell)
       (simp add: farewell_def)
next
  case False
  with assms obtain h where h: "play_turn g = Inr h"
    and g': "g' = (if is_game_over h then h\<lparr>state := GameOver\<rparr> else h)"
    by (auto simp: run_body_def split: State.splits sum.splits)
  from g' have "says_farewell g' = says_farewell h" by simp
  with says_farewell_play_turn [OF h] show ?thesis by simp
qed

lemma says_farewell_run_steps:
  "run_steps n g = Inr g' \<Longrightarrow> says_farewell g' \<longleftrightarrow> says_farewell g"
proof (induction n arbitrary: g)
  case 0
  then show ?case by simp
next
  case (Suc n)
  show ?case
  proof (cases "state g = GameOver")
    case True
    with Suc.prems show ?thesis by simp
  next
    case False
    with Suc.prems obtain h where h: "run_body g = Inr h" "run_steps n h = Inr g'"
      by (auto split: sum.splits)
    from Suc.IH [OF h(2)] says_farewell_run_body [OF False h(1)] show ?thesis by simp
  qed
qed

text \<open>No game that returns has written the farewell line.\<close>

lemma run_never_says_farewell:
  assumes "run (AceyDucey_new seed input) = Some (Inr g)"
  shows "\<not> says_farewell g"
proof -
  from run_returns_run_steps [OF assms] obtain n
    where "run_steps n (AceyDucey_new seed input) = Inr g" by auto
  from says_farewell_run_steps [OF this] show ?thesis
    by (simp add: AceyDucey_new_def says_farewell_def)
qed

text \<open>
  Claim C8 says that every game that returns has written the farewell line once. The
  \<open>println\<close> of the farewell is under \<open>case State::GameOver\<close> inside a loop that is
  only entered while the state is not \<open>GameOver\<close>, so it is never reached
  (\<open>run_never_says_farewell\<close>). In the game below the player bets 100 on 2 and A, the
  third card is an A, and the answer to the question is \<open>no\<close>: \<open>run\<close> returns, and its
  last output is the question.
\<close>

theorem run_without_farewell:
  "(case run (AceyDucey_new (cycle [0, 12, 12]) [''100'', ''no'']) of
      Some (Inr g) \<Rightarrow>
        state g = GameOver \<and> balance g = 0 \<and> cin g = [] \<and> \<not> says_farewell g \<and>
        cout g = [centre 66 ''ACEY DUCEY CARD GAME'' @ ''\<newline>'',
                  centre 66 ''CREATIVE COMPUTING  MORRISTOWN, NEW JERSEY'' @ ''\<newline>'',
                  ''\<newline>'',
                  ''ACEY-DUCEY IS PLAYED IN THE FOLLOWING MANNER\<newline>'',
                  ''THE DEALER (COMPUTER) DEALS TWO CARDS FACE UP\<newline>'',
                  ''YOU HAVE AN OPTION TO BET OR NOT BET DEPENDING\<newline>'',
                  ''ON WHETHER OR NOT YOU FEEL THE CARD WILL HAVE\<newline>'',
                  ''A VALUE BETWEEN THE FIRST TWO.\<newline>'',
                  ''YOU NOW HAVE $100 DOLLARS\<newline>'',
                  ''HERE ARE YOUR NEXT TWO CARDS:\<newline>'',
                  ''2 A\<newline>'',
                  ''WHAT IS YOUR BET '',
                  ''A\<newline>'',
                  ''SORRY, YOU LOSE\<newline>'',
                  ''SORRY, FRIEND, BUT YOU BLEW YOUR WAD.\<newline>'',
                  ''TRY AGAIN (YES OR NO)? '']
    | _ \<Rightarrow> False)"
proof -
  have "\<exists>g. run (AceyDucey_new (cycle [0, 12, 12]) [''100'', ''no'']) = Some (Inr g)
        \<and> state g = GameOver \<and> balance g = 0 \<and> cin g = [] \<and>
        cout g = [centre 66 ''ACEY DUCEY CARD GAME'' @ ''\<newline>'',
                  centre 66 ''CREATIVE COMPUTING  MORRISTOWN, NEW JERSEY'' @ ''\<newline>'',
                  ''\<newline>'',
                  ''ACEY-DUCEY IS PLAYED IN THE FOLLOWING MANNER\<newline>'',
                  ''THE DEALER (COMPUTER) DEALS TWO CARDS FACE UP\<newline>'',
                  ''YOU HAVE AN OPTION TO BET OR NOT BET DEPENDING\<newline>'',
                  ''ON WHETHER OR NOT YOU FEEL THE CARD WILL HAVE\<newline>'',
                  ''A VALUE BETWEEN THE FIRST TWO.\<newline>'',
                  ''YOU NOW HAVE $100 DOLLARS\<newline>'',
                  ''HERE ARE YOUR NEXT TWO CARDS:\<newline>'',
                  ''2 A\<newline>'',
                  ''WHAT IS YOUR BET '',
                  ''A\<newline>'',
                  ''SORRY, YOU LOSE\<newline>'',
                  ''SORRY, FRIEND, BUT YOU BLEW YOUR WAD.\<newline>'',
                  ''TRY AGAIN (YES OR NO)? '']"
    by (simp add: run.simps AceyDucey_new_def turn_eval show_eval print_intro_def
          print_instructions_def)
  then obtain g where g: "run (AceyDucey_new (cycle [0, 12, 12]) [''100'', ''no'']) = Some (Inr g)"
    and obs: "state g = GameOver" "balance g = 0" "cin g = []"
        "cout g = [centre 66 ''ACEY DUCEY CARD GAME'' @ ''\<newline>'',
                  centre 66 ''CREATIVE COMPUTING  MORRISTOWN, NEW JERSEY'' @ ''\<newline>'',
                  ''\<newline>'',
                  ''ACEY-DUCEY IS PLAYED IN THE FOLLOWING MANNER\<newline>'',
                  ''THE DEALER (COMPUTER) DEALS TWO CARDS FACE UP\<newline>'',
                  ''YOU HAVE AN OPTION TO BET OR NOT BET DEPENDING\<newline>'',
                  ''ON WHETHER OR NOT YOU FEEL THE CARD WILL HAVE\<newline>'',
                  ''A VALUE BETWEEN THE FIRST TWO.\<newline>'',
                  ''YOU NOW HAVE $100 DOLLARS\<newline>'',
                  ''HERE ARE YOUR NEXT TWO CARDS:\<newline>'',
                  ''2 A\<newline>'',
                  ''WHAT IS YOUR BET '',
                  ''A\<newline>'',
                  ''SORRY, YOU LOSE\<newline>'',
                  ''SORRY, FRIEND, BUT YOU BLEW YOUR WAD.\<newline>'',
                  ''TRY AGAIN (YES OR NO)? '']"
    by blast
  from run_never_says_farewell [OF g] have "\<not> says_farewell g" .
  with g obs show ?thesis by (simp only: option.case sum.case) simp
qed

end
